theory Spec2Isabelle
  imports Complex_Main
begin

section \<open>JavaScript values and objects\<close>

text \<open>
  The two migrators of \<^verbatim>\<open>canvasSettingsSlice.ts\<close> take a value of type \<^verbatim>\<open>any\<close>:
  the snapshot of a slice as it was read back from storage. The values modelled are
  those of deserialised data and \<^verbatim>\<open>undefined\<close>: \<^verbatim>\<open>null\<close>, booleans, finite numbers,
  strings and objects. An object is the list of its own properties in property order;
  an array is the object of its indices. Objects are plain: extensible, with data
  properties only and with nothing but \<^verbatim>\<open>Object.prototype\<close> above them, which has
  neither a \<^verbatim>\<open>_version\<close> nor an \<^verbatim>\<open>activeTab\<close> property.
\<close>

datatype jsval =
    JUndefined
  | JNull
  | JBool bool
  | JNum real
  | JStr string
  | JObj "(string \<times> jsval) list"

type_synonym props = "(string \<times> jsval) list"

text \<open>The only error the code below can raise: \<^verbatim>\<open>in\<close> applied to a primitive.\<close>

datatype error = TypeError

text \<open>\<^verbatim>\<open>k in o\<close> for a plain object \<open>o\<close>.\<close>

fun has_prop :: "string \<Rightarrow> props \<Rightarrow> bool" where
  "has_prop k [] = False"
| "has_prop k ((k', v) # ps) = (k = k' \<or> has_prop k ps)"

text \<open>\<^verbatim>\<open>o.k\<close>: the value of the property, \<^verbatim>\<open>undefined\<close> when there is none.\<close>

fun get_prop :: "string \<Rightarrow> props \<Rightarrow> jsval" where
  "get_prop k [] = JUndefined"
| "get_prop k ((k', v) # ps) = (if k = k' then v else get_prop k ps)"

text \<open>
  \<^verbatim>\<open>o.k = v\<close>: an existing property keeps its place and takes the new value, a new
  property is added after the others.
\<close>

fun set_prop :: "string \<Rightarrow> jsval \<Rightarrow> props \<Rightarrow> props" where
  "set_prop k v [] = [(k, v)]"
| "set_prop k v ((k', v') # ps) =
     (if k = k' then (k, v) # ps else (k', v') # set_prop k v ps)"

text \<open>
  \<^verbatim>\<open>x === n\<close> for a number literal \<open>n\<close>: true for the number \<open>n\<close> only; no value of
  another type is converted.
\<close>

fun strict_eq_num :: "jsval \<Rightarrow> real \<Rightarrow> bool" where
  "strict_eq_num (JNum x) n = (x = n)"
| "strict_eq_num _ n = False"

text \<open>The properties of a value that is an object, and their names.\<close>

fun props_of :: "jsval \<Rightarrow> props" where
  "props_of (JObj ps) = ps"
| "props_of _ = []"

definition own_keys :: "jsval \<Rightarrow> string list" where
  "own_keys v = map fst (props_of v)"


section \<open>The canvas settings slice\<close>

text \<open>
  The colour type \<^verbatim>\<open>RgbaColor\<close> is declared in \<^verbatim>\<open>features/controlLayers/store/types\<close>;
  its four channels \<^verbatim>\<open>r\<close>, \<^verbatim>\<open>g\<close>, \<^verbatim>\<open>b\<close>, \<^verbatim>\<open>a\<close> are read off the literal in
  \<^verbatim>\<open>initialState\<close> and are the arguments of \<open>Rgba\<close>, in this order.
\<close>

datatype RgbaColor = Rgba real real real real

record CanvasSettingsState =
  showHUD :: bool
  autoSave :: bool
  clipToBbox :: bool
  dynamicGrid :: bool
  invertScrollForToolWidth :: bool
  brushWidth :: real
  eraserWidth :: real
  color :: RgbaColor
  sendToCanvas :: bool
  outputOnlyMaskedRegions :: bool
  autoProcessFilter :: bool
  snapToGrid :: bool
  showProgressOnCanvas :: bool
  bboxOverlay :: bool
  preserveMask :: bool

definition initialState :: CanvasSettingsState where
  "initialState = \<lparr>
     showHUD = True,
     autoSave = False,
     clipToBbox = False,
     dynamicGrid = False,
     invertScrollForToolWidth = False,
     brushWidth = 50,
     eraserWidth = 50,
     color = Rgba 31 160 224 1,
     sendToCanvas = False,
     outputOnlyMaskedRegions = False,
     autoProcessFilter = True,
     snapToGrid = True,
     showProgressOnCanvas = True,
     bboxOverlay = False,
     preserveMask = False \<rparr>"

text \<open>\<^verbatim>\<open>Math.round\<close> on a finite number: the nearest integer, a tie going upwards.\<close>

definition Math_round :: "real \<Rightarrow> real" where
  "Math_round x = of_int \<lfloor>x + 1 / 2\<rfloor>"

text \<open>
  The reducers of the slice. Each takes the state (and the payload of its action, if it
  has one) and returns the state with the one field assigned.
\<close>

definition settingsClipToBboxChanged :: "CanvasSettingsState \<Rightarrow> bool \<Rightarrow> CanvasSettingsState" where
  "settingsClipToBboxChanged state payload = state\<lparr>clipToBbox := payload\<rparr>"

definition settingsDynamicGridToggled :: "CanvasSettingsState \<Rightarrow> CanvasSettingsState" where
  "settingsDynamicGridToggled state = state\<lparr>dynamicGrid := \<not> dynamicGrid state\<rparr>"

definition settingsAutoSaveToggled :: "CanvasSettingsState \<Rightarrow> CanvasSettingsState" where
  "settingsAutoSaveToggled state = state\<lparr>autoSave := \<not> autoSave state\<rparr>"

definition settingsShowHUDToggled :: "CanvasSettingsState \<Rightarrow> CanvasSettingsState" where
  "settingsShowHUDToggled state = state\<lparr>showHUD := \<not> showHUD state\<rparr>"

definition settingsBrushWidthChanged :: "CanvasSettingsState \<Rightarrow> real \<Rightarrow> CanvasSettingsState" where
  "settingsBrushWidthChanged state payload = state\<lparr>brushWidth := Math_round payload\<rparr>"

definition settingsEraserWidthChanged :: "CanvasSettingsState \<Rightarrow> real \<Rightarrow> CanvasSettingsState" where
  "settingsEraserWidthChanged state payload = state\<lparr>eraserWidth := Math_round payload\<rparr>"

definition settingsColorChanged :: "CanvasSettingsState \<Rightarrow> RgbaColor \<Rightarrow> CanvasSettingsState" where
  "settingsColorChanged state payload = state\<lparr>color := payload\<rparr>"

definition settingsInvertScrollForToolWidthChanged ::
    "CanvasSettingsState \<Rightarrow> bool \<Rightarrow> CanvasSettingsState" where
  "settingsInvertScrollForToolWidthChanged state payload =
     state\<lparr>invertScrollForToolWidth := payload\<rparr>"

definition settingsSendToCanvasChanged :: "CanvasSettingsState \<Rightarrow> bool \<Rightarrow> CanvasSettingsState" where
  "settingsSendToCanvasChanged state payload = state\<lparr>sendToCanvas := payload\<rparr>"

definition settingsOutputOnlyMaskedRegionsToggled :: "CanvasSettingsState \<Rightarrow> CanvasSettingsState" where
  "settingsOutputOnlyMaskedRegionsToggled state =
     state\<lparr>outputOnlyMaskedRegions := \<not> outputOnlyMaskedRegions state\<rparr>"

definition settingsAutoProcessFilterToggled :: "CanvasSettingsState \<Rightarrow> CanvasSettingsState" where
  "settingsAutoProcessFilterToggled state =
     state\<lparr>autoProcessFilter := \<not> autoProcessFilter state\<rparr>"

definition settingsSnapToGridToggled :: "CanvasSettingsState \<Rightarrow> CanvasSettingsState" where
  "settingsSnapToGridToggled state = state\<lparr>snapToGrid := \<not> snapToGrid state\<rparr>"

definition settingsShowProgressOnCanvasToggled :: "CanvasSettingsState \<Rightarrow> CanvasSettingsState" where
  "settingsShowProgressOnCanvasToggled state =
     state\<lparr>showProgressOnCanvas := \<not> showProgressOnCanvas state\<rparr>"

definition settingsBboxOverlayToggled :: "CanvasSettingsState \<Rightarrow> CanvasSettingsState" where
  "settingsBboxOverlayToggled state = state\<lparr>bboxOverlay := \<not> bboxOverlay state\<rparr>"

definition settingsPreserveMaskToggled :: "CanvasSettingsState \<Rightarrow> CanvasSettingsState" where
  "settingsPreserveMaskToggled state = state\<lparr>preserveMask := \<not> preserveMask state\<rparr>"


section \<open>Migration and persistence\<close>

text \<open>
  \<^verbatim>\<open>migrate\<close> of the canvas settings: \<^verbatim>\<open>return state\<close>. It inspects nothing of its
  argument, so it is the same function at every type: of a value as much as of a
  reference to one.
\<close>

definition migrate :: "'a \<Rightarrow> error + 'a" where
  "migrate state = Inr state"

text \<open>
  \<^verbatim>\<open>migrateUIState\<close>. The three conditionals run one after the other on the same
  object, each reading the tag the one before may have written; \<^verbatim>\<open>'_version' in state\<close>
  raises a \<^verbatim>\<open>TypeError\<close> when \<^verbatim>\<open>state\<close> is not an object.
\<close>

fun migrateUIState :: "jsval \<Rightarrow> error + jsval" where
  "migrateUIState (JObj state) =
     (let state1 = (if \<not> has_prop ''_version'' state
                    then set_prop ''_version'' (JNum 1) state
                    else state);
          state2 = (if strict_eq_num (get_prop ''_version'' state1) 1
                    then set_prop ''_version'' (JNum 2)
                           (set_prop ''activeTab'' (JStr ''generation'') state1)
                    else state1);
          state3 = (if strict_eq_num (get_prop ''_version'' state2) 2
                    then set_prop ''_version'' (JNum 3)
                           (set_prop ''activeTab'' (JStr ''canvas'') state2)
                    else state2)
      in Inr (JObj state3))"
| "migrateUIState _ = Inl TypeError"

text \<open>
  The type \<^verbatim>\<open>UIState\<close> is declared in \<^verbatim>\<open>./uiTypes\<close>; the initial state of the UI slice is
  kept as the object literal it is written as.
\<close>

definition initialUIState :: jsval where
  "initialUIState = JObj
     [(''_version'', JNum 3),
      (''activeTab'', JStr ''canvas''),
      (''shouldShowImageDetails'', JBool False),
      (''shouldShowProgressInViewer'', JBool True),
      (''accordions'', JObj []),
      (''expanders'', JObj [])]"

text \<open>
  A persistence configuration, as the two object literals give it: the name of the
  slice, its initial state, its migrator and the fields that are not persisted.
\<close>

record 's PersistConfig =
  name_of :: string
  initialState_of :: 's
  migrate_of :: "jsval \<Rightarrow> error + jsval"
  persistDenylist :: "string list"

definition canvasSettingsPersistConfig :: "CanvasSettingsState PersistConfig" where
  "canvasSettingsPersistConfig = \<lparr>
     name_of = ''canvasSettings'',
     initialState_of = initialState,
     migrate_of = migrate,
     persistDenylist = [] \<rparr>"

definition uiPersistConfig :: "jsval PersistConfig" where
  "uiPersistConfig = \<lparr>
     name_of = ''ui'',
     initialState_of = initialUIState,
     migrate_of = migrateUIState,
     persistDenylist = [''shouldShowImageDetails''] \<rparr>"

text \<open>
  Whether the result of a migration is an object that carries the version tag of the
  initial state and has every field the initial state has.
\<close>

fun has_current_fields :: "error + jsval \<Rightarrow> bool" where
  "has_current_fields (Inr (JObj ps)) =
     (get_prop ''_version'' ps = get_prop ''_version'' (props_of initialUIState) \<and>
      list_all (\<lambda>k. has_prop k ps) (own_keys initialUIState))"
| "has_current_fields _ = False"


section \<open>Properties of objects\<close>

lemma has_prop_set_prop: "has_prop k (set_prop k' v ps) = (k = k' \<or> has_prop k ps)"
  by (induction ps) (auto split: if_splits)

lemma get_prop_set_prop:
  "get_prop k (set_prop k' v ps) = (if k = k' then v else get_prop k ps)"
  by (induction ps) auto

lemma get_prop_defined: "get_prop k ps \<noteq> JUndefined \<Longrightarrow> has_prop k ps"
  by (induction ps) (auto split: if_splits)

lemma strict_eq_num_iff: "strict_eq_num v n = (v = JNum n)"
  by (cases v) auto

lemmas obj_simps = Let_def has_prop_set_prop get_prop_set_prop strict_eq_num_iff

text \<open>Only an object can be migrated: on every other value the \<^verbatim>\<open>in\<close> test raises.\<close>

lemma migrateUIState_primitive:
  "migrateUIState JUndefined = Inl TypeError"
  "migrateUIState JNull = Inl TypeError"
  "migrateUIState (JBool b) = Inl TypeError"
  "migrateUIState (JNum x) = Inl TypeError"
  "migrateUIState (JStr t) = Inl TypeError"
  by simp_all

text \<open>The initial state of the UI slice has the fields of its own schema.\<close>

lemma initialUIState_has_current_fields: "has_current_fields (Inr initialUIState)"
  by (simp add: initialUIState_def own_keys_def)


section \<open>The migrators\<close>

text \<open>
  Claim C1. The migrators are idempotent: whenever \<open>S\<close> is what \<open>migrateUIState\<close>
  returns on some input \<open>s\<close>, migrating \<open>S\<close> again returns \<open>S\<close>; and likewise for
  \<open>migrate\<close> of the canvas settings.
\<close>

theorem migrators_idempotent:
  "(migrateUIState s = Inr S \<longrightarrow> migrateUIState S = Inr S) \<and>
   (migrate x = Inr T \<longrightarrow> migrate T = Inr T)"
proof
  show "migrateUIState s = Inr S \<longrightarrow> migrateUIState S = Inr S"
    by (cases s) (auto simp: obj_simps split: if_splits)
  show "migrate x = Inr T \<longrightarrow> migrate T = Inr T"
    by (simp add: migrate_def)
qed

theorem migrators_idempotent_witness:
  "migrateUIState (JObj [(''_version'', JNum 1)]) =
     Inr (JObj [(''_version'', JNum 3), (''activeTab'', JStr ''canvas'')]) \<and>
   migrateUIState (JObj [(''_version'', JNum 3), (''activeTab'', JStr ''canvas'')]) =
     Inr (JObj [(''_version'', JNum 3), (''activeTab'', JStr ''canvas'')]) \<and>
   migrate (JBool True) = Inr (JBool True)"
  using migrators_idempotent
    [of "JObj [(''_version'', JNum 1)]"
        "JObj [(''_version'', JNum 3), (''activeTab'', JStr ''canvas'')]"
        "JBool True" "JBool True"]
  by (simp add: migrate_def)

text \<open>
  Claim C2. The staircase: when the \<^verbatim>\<open>_version\<close> tag of the input is an integer \<open>v\<close>
  with \<open>1 \<le> v \<le> 2\<close>, \<open>migrateUIState\<close> returns an object whose tag is 3, whichever
  of the two the input started from.
\<close>

theorem migrateUIState_staircase:
  assumes "get_prop ''_version'' ps = JNum (of_int v)" and "1 \<le> v" and "v \<le> 2"
  shows "\<exists>out. migrateUIState (JObj ps) = Inr (JObj out) \<and>
               get_prop ''_version'' out = JNum 3"
proof -
  have "has_prop ''_version'' ps"
    using assms(1) by (intro get_prop_defined) simp
  moreover have "v = 1 \<or> v = 2"
    using assms(2,3) by arith
  ultimately show ?thesis
    using assms(1) by (auto simp: obj_simps)
qed

theorem migrateUIState_staircase_witness:
  "get_prop ''_version'' [(''_version'', JNum 1), (''activeTab'', JStr ''nodes'')] =
     JNum (of_int 1) \<and>
   (1::int) \<le> 1 \<and> (1::int) \<le> 2 \<and>
   migrateUIState (JObj [(''_version'', JNum 1), (''activeTab'', JStr ''nodes'')]) =
     Inr (JObj [(''_version'', JNum 3), (''activeTab'', JStr ''canvas'')]) \<and>
   get_prop ''_version'' [(''_version'', JNum 3), (''activeTab'', JStr ''canvas'')] = JNum 3"
proof -
  have h: "get_prop ''_version'' [(''_version'', JNum 1), (''activeTab'', JStr ''nodes'')] =
             JNum (of_int 1)"
    by simp
  show ?thesis
    using migrateUIState_staircase [OF h] by simp
qed

text \<open>
  Claim C3. The empty object \<^verbatim>\<open>{}\<close> is migrated to an object whose \<^verbatim>\<open>_version\<close> is 3
  and whose \<^verbatim>\<open>activeTab\<close> is \<^verbatim>\<open>'canvas'\<close>, the value of the step from 2 to 3, not
  \<^verbatim>\<open>'generation'\<close>, the value of the step from 1 to 2.
\<close>

theorem migrateUIState_empty:
  "migrateUIState (JObj []) =
     Inr (JObj [(''_version'', JNum 3), (''activeTab'', JStr ''canvas'')]) \<and>
   get_prop ''_version'' [(''_version'', JNum 3), (''activeTab'', JStr ''canvas'')] = JNum 3 \<and>
   get_prop ''activeTab'' [(''_version'', JNum 3), (''activeTab'', JStr ''canvas'')] =
     JStr ''canvas'' \<and>
   get_prop ''activeTab'' [(''_version'', JNum 3), (''activeTab'', JStr ''canvas'')] \<noteq>
     JStr ''generation''"
  by simp

text \<open>
  Claim C4. The default baseline: an object with no \<^verbatim>\<open>_version\<close> property is migrated
  to the same result as the object with \<^verbatim>\<open>_version\<close> set to 1.
\<close>

theorem migrateUIState_default_baseline:
  "\<not> has_prop ''_version'' ps \<Longrightarrow>
   migrateUIState (JObj ps) = migrateUIState (JObj (set_prop ''_version'' (JNum 1) ps))"
  by (simp add: obj_simps)

theorem migrateUIState_default_baseline_witness:
  "\<not> has_prop ''_version'' [(''activeTab'', JStr ''nodes'')] \<and>
   migrateUIState (JObj [(''activeTab'', JStr ''nodes'')]) =
     migrateUIState (JObj [(''activeTab'', JStr ''nodes''), (''_version'', JNum 1)]) \<and>
   migrateUIState (JObj [(''activeTab'', JStr ''nodes'')]) =
     Inr (JObj [(''activeTab'', JStr ''canvas''), (''_version'', JNum 3)])"
proof -
  have h: "\<not> has_prop ''_version'' [(''activeTab'', JStr ''nodes'')]"
    by simp
  show ?thesis
    using migrateUIState_default_baseline [OF h] by simp
qed

text \<open>
  The migrator writes \<^verbatim>\<open>_version\<close> and \<^verbatim>\<open>activeTab\<close> and nothing else. The empty object
  comes out with these two fields only, without \<^verbatim>\<open>shouldShowImageDetails\<close>,
  \<^verbatim>\<open>shouldShowProgressInViewer\<close>, \<^verbatim>\<open>accordions\<close> and \<^verbatim>\<open>expanders\<close>; an object tagged
  4 comes out tagged 4.
\<close>

theorem migrateUIState_schema_counterexample:
  "\<not> has_current_fields (migrateUIState (JObj [])) \<and>
   \<not> has_current_fields (migrateUIState (JObj [(''_version'', JNum 4)]))"
  by (simp add: initialUIState_def own_keys_def)

text \<open>
  Claim C5, in the form that holds of the code. For an object with no \<^verbatim>\<open>_version\<close> property, or tagged 1, 2 or 3,
  the migrated object carries the tag of the initial state, 3; unless the input was
  tagged 3 already, its \<^verbatim>\<open>activeTab\<close> is present with the value of the initial state,
  \<^verbatim>\<open>'canvas'\<close>. No other field is filled in: each of \<^verbatim>\<open>shouldShowImageDetails\<close>,
  \<^verbatim>\<open>shouldShowProgressInViewer\<close>, \<^verbatim>\<open>accordions\<close> and \<^verbatim>\<open>expanders\<close> is in the result
  exactly when it is in the input, with the value it has there.
\<close>

theorem migrateUIState_schema:
  assumes "\<not> has_prop ''_version'' ps \<or> get_prop ''_version'' ps = JNum 1 \<or>
           get_prop ''_version'' ps = JNum 2 \<or> get_prop ''_version'' ps = JNum 3"
  shows "\<exists>out. migrateUIState (JObj ps) = Inr (JObj out) \<and>
           get_prop ''_version'' out = get_prop ''_version'' (props_of initialUIState) \<and>
           get_prop ''_version'' out = JNum 3 \<and>
           (get_prop ''_version'' ps \<noteq> JNum 3 \<longrightarrow>
              has_prop ''activeTab'' out \<and>
              get_prop ''activeTab'' out = get_prop ''activeTab'' (props_of initialUIState) \<and>
              get_prop ''activeTab'' out = JStr ''canvas'') \<and>
           (\<forall>k \<in> {''shouldShowImageDetails'', ''shouldShowProgressInViewer'',
                   ''accordions'', ''expanders''}.
              has_prop k out = has_prop k ps \<and> get_prop k out = get_prop k ps)"
proof -
  have tag: "get_prop ''_version'' ps = JNum 3 \<Longrightarrow> has_prop ''_version'' ps"
    by (rule get_prop_defined) simp
  show ?thesis
    using assms tag by (auto simp: obj_simps initialUIState_def)
qed

theorem migrateUIState_schema_witness:
  "get_prop ''_version''
     [(''_version'', JNum 2), (''activeTab'', JStr ''generation''),
      (''shouldShowImageDetails'', JBool True)] = JNum 2 \<and>
   migrateUIState (JObj
     [(''_version'', JNum 2), (''activeTab'', JStr ''generation''),
      (''shouldShowImageDetails'', JBool True)]) =
   Inr (JObj
     [(''_version'', JNum 3), (''activeTab'', JStr ''canvas''),
      (''shouldShowImageDetails'', JBool True)]) \<and>
   get_prop ''shouldShowImageDetails''
     [(''_version'', JNum 3), (''activeTab'', JStr ''canvas''),
      (''shouldShowImageDetails'', JBool True)] = JBool True \<and>
   \<not> has_prop ''accordions''
     [(''_version'', JNum 3), (''activeTab'', JStr ''canvas''),
      (''shouldShowImageDetails'', JBool True)]"
proof -
  have h: "\<not> has_prop ''_version''
         [(''_version'', JNum 2), (''activeTab'', JStr ''generation''),
          (''shouldShowImageDetails'', JBool True)] \<or>
     get_prop ''_version''
         [(''_version'', JNum 2), (''activeTab'', JStr ''generation''),
          (''shouldShowImageDetails'', JBool True)] = JNum 1 \<or>
     get_prop ''_version''
         [(''_version'', JNum 2), (''activeTab'', JStr ''generation''),
          (''shouldShowImageDetails'', JBool True)] = JNum 2 \<or>
     get_prop ''_version''
         [(''_version'', JNum 2), (''activeTab'', JStr ''generation''),
          (''shouldShowImageDetails'', JBool True)] = JNum 3"
    by simp
  show ?thesis
    using migrateUIState_schema [OF h] by simp
qed

text \<open>
  Claim C7. \<open>migrate\<close> of the canvas settings is the identity: whatever \<open>x\<close> is, the
  call returns \<open>x\<close> itself and raises nothing.
\<close>

theorem migrate_identity: "migrate x = Inr x"
  by (simp add: migrate_def)

text \<open>
  Claim C8. The frame of the UI migrator: on every object the call returns an object
  and raises nothing, and every property other than \<^verbatim>\<open>_version\<close> and \<^verbatim>\<open>activeTab\<close>,
  known to the schema or not, is in the result exactly when it is in the input, with
  its value unchanged.
\<close>

theorem migrateUIState_frame:
  "\<exists>out. migrateUIState (JObj ps) = Inr (JObj out) \<and>
     (\<forall>k. k \<noteq> ''_version'' \<and> k \<noteq> ''activeTab'' \<longrightarrow>
        has_prop k out = has_prop k ps \<and> get_prop k out = get_prop k ps)"
  by (simp add: obj_simps)

theorem migrateUIState_frame_witness:
  "migrateUIState (JObj [(''legacy'', JNum 7)]) =
     Inr (JObj [(''legacy'', JNum 7), (''_version'', JNum 3),
                (''activeTab'', JStr ''canvas'')]) \<and>
   has_prop ''legacy''
     [(''legacy'', JNum 7), (''_version'', JNum 3), (''activeTab'', JStr ''canvas'')] \<and>
   get_prop ''legacy''
     [(''legacy'', JNum 7), (''_version'', JNum 3), (''activeTab'', JStr ''canvas'')] =
     JNum 7"
  using migrateUIState_frame [of "[(''legacy'', JNum 7)]"] by simp

text \<open>
  Claim C10. An object whose \<^verbatim>\<open>_version\<close> property is present with a value other than
  1 and 2 (a later tag such as 4, or a value that is no number) is returned as it is:
  nothing is raised and no property is changed.
\<close>

theorem migrateUIState_passthrough:
  assumes "has_prop ''_version'' ps"
    and "get_prop ''_version'' ps \<noteq> JNum 1"
    and "get_prop ''_version'' ps \<noteq> JNum 2"
  shows "migrateUIState (JObj ps) = Inr (JObj ps)"
  using assms by (simp add: obj_simps)

theorem migrateUIState_passthrough_witness:
  "has_prop ''_version'' [(''_version'', JStr ''1''), (''activeTab'', JStr ''nodes'')] \<and>
   get_prop ''_version'' [(''_version'', JStr ''1''), (''activeTab'', JStr ''nodes'')] \<noteq>
     JNum 1 \<and>
   get_prop ''_version'' [(''_version'', JStr ''1''), (''activeTab'', JStr ''nodes'')] \<noteq>
     JNum 2 \<and>
   migrateUIState (JObj [(''_version'', JStr ''1''), (''activeTab'', JStr ''nodes'')]) =
     Inr (JObj [(''_version'', JStr ''1''), (''activeTab'', JStr ''nodes'')])"
proof -
  have h1: "has_prop ''_version'' [(''_version'', JStr ''1''), (''activeTab'', JStr ''nodes'')]"
    by simp
  have h2: "get_prop ''_version'' [(''_version'', JStr ''1''), (''activeTab'', JStr ''nodes'')] \<noteq>
              JNum 1"
    by simp
  have h3: "get_prop ''_version'' [(''_version'', JStr ''1''), (''activeTab'', JStr ''nodes'')] \<noteq>
              JNum 2"
    by simp
  show ?thesis
    using h1 h2 h3 migrateUIState_passthrough [OF h1 h2 h3] by simp
qed


section \<open>The persistence configurations\<close>

text \<open>
  The denylist of the canvas settings is written \<^verbatim>\<open>[]\<close>: \<^verbatim>\<open>color\<close> is not in it.
\<close>

theorem canvasSettings_denylist_counterexample:
  "''color'' \<notin> set (persistDenylist canvasSettingsPersistConfig)"
  by (simp add: canvasSettingsPersistConfig_def)

text \<open>
  Claim C6, in the form that holds of the code. The denylist of the canvas settings is empty, so that no field of
  the canvas settings, \<^verbatim>\<open>color\<close> included, is kept from persistence; the denylist of the
  UI slice holds the field \<^verbatim>\<open>shouldShowImageDetails\<close> and no other.
\<close>

theorem persistDenylists:
  "persistDenylist canvasSettingsPersistConfig = [] \<and>
   persistDenylist uiPersistConfig = [''shouldShowImageDetails'']"
  by (simp add: canvasSettingsPersistConfig_def uiPersistConfig_def)


section \<open>The toggles of the canvas settings\<close>

text \<open>
  Claim C9. Each of the nine toggle reducers of the canvas settings is its own inverse:
  applied twice to a state, it gives the state back.
\<close>

theorem toggles_self_inverse:
  "settingsDynamicGridToggled (settingsDynamicGridToggled state) = state \<and>
   settingsAutoSaveToggled (settingsAutoSaveToggled state) = state \<and>
   settingsShowHUDToggled (settingsShowHUDToggled state) = state \<and>
   settingsOutputOnlyMaskedRegionsToggled (settingsOutputOnlyMaskedRegionsToggled state) = state \<and>
   settingsAutoProcessFilterToggled (settingsAutoProcessFilterToggled state) = state \<and>
   settingsSnapToGridToggled (settingsSnapToGridToggled state) = state \<and>
   settingsShowProgressOnCanvasToggled (settingsShowProgressOnCanvasToggled state) = state \<and>
   settingsBboxOverlayToggled (settingsBboxOverlayToggled state) = state \<and>
   settingsPreserveMaskToggled (settingsPreserveMaskToggled state) = state"
  by (simp add: settingsDynamicGridToggled_def settingsAutoSaveToggled_def
      settingsShowHUDToggled_def settingsOutputOnlyMaskedRegionsToggled_def
      settingsAutoProcessFilterToggled_def settingsSnapToGridToggled_def
      settingsShowProgressOnCanvasToggled_def settingsBboxOverlayToggled_def
      settingsPreserveMaskToggled_def)

end
